theory Spec2Isabelle
  imports Complex_Main
begin

section \<open>Numbers\<close>

text \<open>
  The program computes with JavaScript numbers. They are modelled as real numbers: the
  arithmetic of the simulation is a handful of sums, products with decimal constants and
  clamps, and the properties below concern their order and their ranges. The rounding
  of binary floating point is outside this model. NaN is modelled where the program
  can produce it, in the weather preprocessor (see \<open>number\<close> below).
\<close>

text \<open>\<^verbatim>\<open>Phaser.Math.Clamp(value, min, max)\<close> is \<^verbatim>\<open>Math.max(min, Math.min(max, value))\<close>.\<close>

definition Clamp :: "real \<Rightarrow> real \<Rightarrow> real \<Rightarrow> real" where
  "Clamp v lo hi = max lo (min hi v)"

text \<open>
  \<^verbatim>\<open>+x.toFixed(f)\<close>: the decimal with \<open>f\<close> fraction digits nearest to \<open>x\<close>, the larger
  one of two nearest candidates in magnitude, the sign handled apart; read back as a number.
\<close>

definition toFixed :: "nat \<Rightarrow> real \<Rightarrow> real" where
  "toFixed f x =
     (if x < 0 then - (of_int \<lfloor>(- x) * 10 ^ f + 1 / 2\<rfloor> / 10 ^ f)
      else of_int \<lfloor>x * 10 ^ f + 1 / 2\<rfloor> / 10 ^ f)"

section \<open>Rainfall labels\<close>

datatype rain = RainNone | RainLow | RainMedium | RainHigh

text \<open>The intensity order none < low < medium < high, as a rank.\<close>

fun intensity :: "rain \<Rightarrow> nat" where
  "intensity RainNone = 0"
| "intensity RainLow = 1"
| "intensity RainMedium = 2"
| "intensity RainHigh = 3"

text \<open>
  FarmGame.jsx, the callback of \<^verbatim>\<open>data.precip.map\<close>:
  \<^verbatim>\<open>
  if (mm === 0) return "none";
  if (mm < 3) return "low";
  if (mm < 10) return "medium";
  return "high";
  \<close>
\<close>

definition rainLabel :: "real \<Rightarrow> rain" where
  "rainLabel mm =
     (if mm = 0 then RainNone
      else if mm < 3 then RainLow
      else if mm < 10 then RainMedium
      else RainHigh)"

definition rainPattern :: "real list \<Rightarrow> rain list" where
  "rainPattern precipitation = map rainLabel precipitation"

text \<open>
  farm-sim.js:
  \<^verbatim>\<open>
  function rainfallToLevel(mm) {
    if (mm < 2) return "low";
    if (mm < 10) return "medium";
    return "high";
  }
  \<close>
\<close>

definition rainfallToLevel :: "real \<Rightarrow> rain" where
  "rainfallToLevel mm =
     (if mm < 2 then RainLow
      else if mm < 10 then RainMedium
      else RainHigh)"

section \<open>The weather preprocessor (MapPage, the click handler of LocationMarker)\<close>

text \<open>
  A parameter object of the upstream response (\<^verbatim>\<open>json.properties.parameter.T2M_MAX\<close> and
  its siblings) maps a date key \<^verbatim>\<open>YYYYMMDD\<close> to a number. A key that is absent and a key
  whose value is \<^verbatim>\<open>null\<close> behave alike under \<^verbatim>\<open>??\<close>; both are \<open>None\<close> here. A parameter
  that is missing as a whole is replaced by \<^verbatim>\<open>{}\<close>, the empty map.
\<close>

type_synonym param_obj = "string \<rightharpoonup> real"

text \<open>
  One row stands for index \<open>i\<close> of the four parallel arrays \<^verbatim>\<open>dates\<close>, \<^verbatim>\<open>tmax\<close>,
  \<^verbatim>\<open>tmin\<close> and \<^verbatim>\<open>precip\<close>; the parsing loop pushes to all four in each round.
\<close>

record row =
  r_key :: string
  r_tmax :: "real option"
  r_tmin :: "real option"
  r_precip :: real

text \<open>
  \<^verbatim>\<open>
  dates.push(key);
  tmax.push(tmaxObj[key] ?? null);
  tmin.push(tminObj[key] ?? null);
  precip.push(precObj[key] ?? 0);
  \<close>
\<close>

definition parseDay :: "param_obj \<Rightarrow> param_obj \<Rightarrow> param_obj \<Rightarrow> string \<Rightarrow> row" where
  "parseDay tmaxObj tminObj precObj k =
     \<lparr>r_key = k, r_tmax = tmaxObj k, r_tmin = tminObj k,
      r_precip = (case precObj k of None \<Rightarrow> 0 | Some v \<Rightarrow> v)\<rparr>"

text \<open>The date keys from \<^verbatim>\<open>start\<close> to \<^verbatim>\<open>end\<close> come from the calendar; they are an input.\<close>

definition parseSeries :: "param_obj \<Rightarrow> param_obj \<Rightarrow> param_obj \<Rightarrow> string list \<Rightarrow> row list" where
  "parseSeries tmaxObj tminObj precObj keys = map (parseDay tmaxObj tminObj precObj) keys"

definition fc_mm :: real where
  "fc_mm = 150"

definition kc_map :: "string \<rightharpoonup> real" where
  "kc_map = [''maize'' \<mapsto> 1.15, ''wheat'' \<mapsto> 0.8, ''grass'' \<mapsto> 1.0, ''default'' \<mapsto> 1.0]"

text \<open>\<^verbatim>\<open>kc_map[crop] || kc_map.default\<close>: a missing entry, or the number 0, gives the default.\<close>

definition kc_default :: real where
  "kc_default = (case kc_map ''default'' of None \<Rightarrow> 0 | Some v \<Rightarrow> v)"

definition kc_of :: "string \<Rightarrow> real" where
  "kc_of crop =
     (case kc_map crop of
        None \<Rightarrow> kc_default
      | Some v \<Rightarrow> if v = 0 then kc_default else v)"

subsection \<open>Numbers that may be NaN\<close>

text \<open>
  In the preprocessor a computation can yield NaN: \<^verbatim>\<open>Math.acos\<close> outside \<open>[-1, 1]\<close>.
  A number that may be NaN is a \<open>real option\<close>, with \<open>None\<close> for NaN. NaN spreads
  through \<^verbatim>\<open>+\<close>, \<^verbatim>\<open>-\<close>, \<^verbatim>\<open>*\<close> and \<^verbatim>\<open>Math.min\<close>, every comparison with NaN is false,
  and \<^verbatim>\<open>+NaN.toFixed(f)\<close> is NaN.
\<close>

type_synonym number = "real option"

definition Math_acos :: "real \<Rightarrow> number" where
  "Math_acos x = (if - 1 \<le> x \<and> x \<le> 1 then Some (arccos x) else None)"

subsection \<open>The day of the year of a date key\<close>

text \<open>
  \<^verbatim>\<open>+key.slice(a, b)\<close> on a key of decimal digits: the number the digits spell.
\<close>

definition digitOf :: "char \<Rightarrow> nat" where
  "digitOf c = of_char c - 48"

definition numOf :: "string \<Rightarrow> nat" where
  "numOf s = foldl (\<lambda>n c. 10 * n + digitOf c) 0 s"

definition leapYear :: "nat \<Rightarrow> bool" where
  "leapYear y = ((y mod 4 = 0 \<and> y mod 100 \<noteq> 0) \<or> y mod 400 = 0)"

definition monthDays :: "nat \<Rightarrow> nat list" where
  "monthDays y = [31, if leapYear y then 29 else 28, 31, 30, 31, 30, 31, 31, 30, 31, 30, 31]"

text \<open>
  \<^verbatim>\<open>
  const dateObj = new Date(Date.UTC(+key.slice(0,4), +key.slice(4,6)-1, +key.slice(6,8)));
  const doy = dayOfYear(dateObj);

  function dayOfYear(d) {
    const start = new Date(Date.UTC(d.getUTCFullYear(), 0, 0));
    const diff = d - start;
    return Math.floor(diff / (1000 * 60 * 60 * 24));
  }
  \<close>
  \<^verbatim>\<open>start\<close> is the last day of the year before, so the result counts the days of the
  year up to the date: the days of the months before it, and its day of the month.
  \<^verbatim>\<open>Date.UTC\<close> reads a year from 0 to 99 as 1900 plus that year. The keys are the dates
  that the parsing loop prints with \<^verbatim>\<open>toISOString\<close>, months 01 to 12 and days that exist.
\<close>

definition dayOfYear :: "string \<Rightarrow> nat" where
  "dayOfYear key =
     (let y0 = numOf (take 4 key);
          y = (if y0 \<le> 99 then 1900 + y0 else y0);
          m = numOf (take 2 (drop 4 key)) - 1;
          d = numOf (take 2 (drop 6 key))
      in sum_list (take m (monthDays y)) + d)"

subsection \<open>Radiation and evapotranspiration\<close>

text \<open>\<^verbatim>\<open>function deg2rad(d) { return d * Math.PI / 180; }\<close>\<close>

definition deg2rad :: "real \<Rightarrow> real" where
  "deg2rad d = d * pi / 180"

text \<open>
  \<^verbatim>\<open>
  function computeRa(latDeg, doy) {
    const Gsc = 0.0820;
    const lat = deg2rad(latDeg);
    const dr = 1 + 0.033 * Math.cos((2 * Math.PI * doy) / 365);
    const delta = 0.409 * Math.sin((2 * Math.PI * doy) / 365 - 1.39);
    const omega_s = Math.acos(-Math.tan(lat) * Math.tan(delta));
    return (24 * 60 / Math.PI) * Gsc * dr * (omega_s * Math.sin(lat) * Math.sin(delta)
      + Math.cos(lat) * Math.cos(delta) * Math.sin(omega_s));
  }
  \<close>
  Where the cosine of the latitude is 0 (the poles) the tangent has no value; the
  program computes there with a tangent of about \<open>1.6e16\<close>, which takes the argument of
  \<^verbatim>\<open>Math.acos\<close> out of \<open>[-1, 1]\<close>: the result is NaN.
\<close>

definition computeRa :: "real \<Rightarrow> nat \<Rightarrow> number" where
  "computeRa latDeg doy =
     (let Gsc = 0.0820;
          lat = deg2rad latDeg;
          dr = 1 + 0.033 * cos ((2 * pi * real doy) / 365);
          delta = 0.409 * sin ((2 * pi * real doy) / 365 - 1.39)
      in if cos lat = 0 then None
         else
           case Math_acos (- tan lat * tan delta) of
             None \<Rightarrow> None
           | Some omega_s \<Rightarrow>
               Some ((24 * 60 / pi) * Gsc * dr
                     * (omega_s * sin lat * sin delta + cos lat * cos delta * sin omega_s)))"

text \<open>
  \<^verbatim>\<open>
  function hargreavesETo(tmin, tmax, Ra) {
    const tmean = (tmin + tmax) / 2;
    const deltaT = Math.max(0, tmax - tmin);
    return 0.0023 * (tmean + 17.8) * Math.sqrt(deltaT) * Ra;
  }
  \<close>
  The temperatures are numbers of the response; only \<^verbatim>\<open>Ra\<close> may be NaN, and then the
  product is.
\<close>

definition hargreavesETo :: "real \<Rightarrow> real \<Rightarrow> number \<Rightarrow> number" where
  "hargreavesETo tmn tmx Ra =
     (let tmean = (tmn + tmx) / 2;
          deltaT = max 0 (tmx - tmn)
      in case Ra of
           None \<Rightarrow> None
         | Some ra \<Rightarrow> Some (0.0023 * (tmean + 17.8) * sqrt deltaT * ra))"

text \<open>
  \<^verbatim>\<open>let eto = (tmx !== null && tmn !== null) ? hargreavesETo(tmn, tmx, computeRa(lat, doy)) : 0;\<close>
  with \<^verbatim>\<open>lat\<close> the latitude of the click, in degrees.
\<close>

definition etoDay :: "real \<Rightarrow> row \<Rightarrow> number" where
  "etoDay lat d =
     (case r_tmax d of
        None \<Rightarrow> Some 0
      | Some tmx \<Rightarrow>
          (case r_tmin d of
             None \<Rightarrow> Some 0
           | Some tmn \<Rightarrow> hargreavesETo tmn tmx (computeRa lat (dayOfYear (r_key d)))))"

text \<open>
  One round of the balance loop, from the available water \<open>aw\<close> before the round to
  the one after it (\<^verbatim>\<open>pr = precip[i] || 0\<close> is \<^verbatim>\<open>precip[i]\<close> on numbers):
  \<^verbatim>\<open>
  aw += pr;
  const etc = eto * kc;
  const actual_et = Math.min(aw, etc);
  aw -= actual_et;
  if (aw > fc_mm) aw = fc_mm;
  if (aw < 0) aw = 0;
  \<close>
  When \<open>aw\<close> or \<open>eto\<close> is NaN, \<^verbatim>\<open>actual_et\<close> is NaN, the subtraction leaves NaN in
  \<open>aw\<close>, and neither test replaces it.
\<close>

definition awStep :: "real \<Rightarrow> number \<Rightarrow> real \<Rightarrow> number \<Rightarrow> number" where
  "awStep kc aw pr eto =
     (case aw of
        None \<Rightarrow> None
      | Some a \<Rightarrow>
          (case eto of
             None \<Rightarrow> None
           | Some e \<Rightarrow>
               (let aw1 = a + pr;
                    etc = e * kc;
                    actual_et = min aw1 etc;
                    aw2 = aw1 - actual_et;
                    aw3 = (if aw2 > fc_mm then fc_mm else aw2)
                in Some (if aw3 < 0 then 0 else aw3))))"

text \<open>
  The loop over the days; the result is \<^verbatim>\<open>(soil_series, eto_series)\<close>, each entry
  pushed as \<^verbatim>\<open>+aw.toFixed(2)\<close> and \<^verbatim>\<open>+eto.toFixed(3)\<close>.
\<close>

fun soilLoop :: "real \<Rightarrow> real \<Rightarrow> number \<Rightarrow> row list \<Rightarrow> number list \<times> number list" where
  "soilLoop lat kc aw [] = ([], [])"
| "soilLoop lat kc aw (d # ds) =
     (let eto = etoDay lat d;
          aw' = awStep kc aw (r_precip d) eto;
          rest = soilLoop lat kc aw' ds
      in (map_option (toFixed 2) aw' # fst rest, map_option (toFixed 3) eto # snd rest))"

definition soilSeries :: "real \<Rightarrow> string \<Rightarrow> row list \<Rightarrow> number list \<times> number list" where
  "soilSeries lat crop rows = soilLoop lat (kc_of crop) (Some (fc_mm * 0.5)) rows"


subsection \<open>The balance as the specification words it\<close>



section \<open>The simulation (FarmGame, class FarmScene)\<close>

datatype action = Irrigate | Fertilize | Scout | Wait

text \<open>
  The handoff record read from local storage: \<^verbatim>\<open>data.precip\<close> and
  \<^verbatim>\<open>data.soil_moisture\<close>; a missing \<^verbatim>\<open>soil_moisture\<close> is the empty list here. Only
  the first soil moisture is read, by \<^verbatim>\<open>init\<close>; a NaN of the preprocessor is stored as
  \<^verbatim>\<open>null\<close>, which \<^verbatim>\<open>init\<close> replaces by 55 as it does the number 0.
\<close>

record weatherData =
  precip :: "real list"
  soil_moisture :: "real list"

text \<open>
  The fields of the scene that the simulation reads and writes. The fields
  \<^verbatim>\<open>cropType\<close>, \<^verbatim>\<open>locationName\<close>, \<^verbatim>\<open>precipSeries\<close> and \<^verbatim>\<open>rainDrops\<close>, and the calls
  that draw (the HUD, the feedback text, the crop circle, the rain, the chart), are
  not read by \<^verbatim>\<open>handleAction\<close> or \<^verbatim>\<open>nextDay\<close> and are left out.
\<close>

record scene =
  scene_rainPattern :: "rain list"
  day :: int
  money :: real
  sustainability :: real
  pests :: real
  nitrogen :: real
  cropHealth :: real
  marketPrice :: real
  soilMoisture :: real
  actionsTakenToday :: "action list"

text \<open>\<^verbatim>\<open>this.soilMoisture = data.soil_moisture?.[0] || 55;\<close> and the constants of \<^verbatim>\<open>init\<close>.\<close>

definition init :: "weatherData \<Rightarrow> scene" where
  "init data =
     \<lparr>scene_rainPattern = rainPattern (precip data),
      day = 1,
      money = 20,
      sustainability = 80,
      pests = 15,
      nitrogen = 45,
      cropHealth = 70,
      marketPrice = 1.0,
      soilMoisture = (case soil_moisture data of [] \<Rightarrow> 55 | x # _ \<Rightarrow> if x = 0 then 55 else x),
      actionsTakenToday = []\<rparr>"

text \<open>
  The random draws of one \<^verbatim>\<open>handleAction\<close> call, made explicit:
  \<^verbatim>\<open>Phaser.Math.Between(5, 15)\<close> (drawn by Scout only), \<^verbatim>\<open>Phaser.Math.Between(0, 5)\<close>
  and \<^verbatim>\<open>Phaser.Math.FloatBetween(-0.05, 0.05)\<close>.
\<close>

record draws =
  pestReduction :: int
  pestRoll :: int
  priceDrift :: real

definition drawsOk :: "draws \<Rightarrow> bool" where
  "drawsOk r =
     (5 \<le> pestReduction r \<and> pestReduction r \<le> 15 \<and> 0 \<le> pestRoll r \<and> pestRoll r \<le> 5
      \<and> - 0.05 \<le> priceDrift r \<and> priceDrift r \<le> 0.05)"

text \<open>\<^verbatim>\<open>this.day > this.rainPattern.length\<close>, the guard of both operations.\<close>

definition complete :: "scene \<Rightarrow> bool" where
  "complete s = (day s > int (length (scene_rainPattern s)))"


text \<open>
  \<^verbatim>\<open>this.rainPattern[this.day - 1] || dflt\<close>: an index outside the array reads
  \<^verbatim>\<open>undefined\<close> and gives the default; every label is a non-empty string.
\<close>

definition rainAt :: "scene \<Rightarrow> rain \<Rightarrow> rain" where
  "rainAt s dflt =
     (if 1 \<le> day s \<and> day s \<le> int (length (scene_rainPattern s))
      then scene_rainPattern s ! nat (day s - 1) else dflt)"

text \<open>The stages of \<^verbatim>\<open>handleAction\<close>, in the order of the source.\<close>

text \<open>\<^verbatim>\<open>// Update soil moisture based on rain\<close>\<close>

definition rainDelta :: "rain \<Rightarrow> real" where
  "rainDelta rn = (case rn of RainNone \<Rightarrow> - 7 | RainLow \<Rightarrow> - 5 | RainMedium \<Rightarrow> 6 | RainHigh \<Rightarrow> 12)"

definition applyRain :: "rain \<Rightarrow> scene \<Rightarrow> scene" where
  "applyRain rn s = s\<lparr>soilMoisture := soilMoisture s + rainDelta rn\<rparr>"

text \<open>\<^verbatim>\<open>// Each action\<close>: the four cases of the switch.\<close>

definition applyChoice :: "rain \<Rightarrow> action \<Rightarrow> draws \<Rightarrow> scene \<Rightarrow> scene" where
  "applyChoice rn a r s =
     (case a of
        Irrigate \<Rightarrow>
          s\<lparr>soilMoisture := soilMoisture s + 10,
            money := money s - 3,
            sustainability :=
              (if rn \<noteq> RainLow \<and> rn \<noteq> RainNone then sustainability s - 2 else sustainability s)\<rparr>
      | Fertilize \<Rightarrow>
          s\<lparr>nitrogen := nitrogen s + 12,
            money := money s - 2,
            sustainability := (if rn = RainHigh then sustainability s - 3 else sustainability s)\<rparr>
      | Scout \<Rightarrow>
          s\<lparr>pests := Clamp (pests s - of_int (pestReduction r)) 0 100,
            money := money s - 1\<rparr>
      | Wait \<Rightarrow> s)"

text \<open>\<^verbatim>\<open>// Random pest growth for the day\<close>\<close>

definition growPests :: "draws \<Rightarrow> scene \<Rightarrow> scene" where
  "growPests r s =
     (let pestGrowth = of_int (pestRoll r) + (100 - cropHealth s) / 20
      in s\<lparr>pests := Clamp (pests s + pestGrowth) 0 100\<rparr>)"

text \<open>\<^verbatim>\<open>// Clamp soil & nitrogen\<close>\<close>

definition clampSoil :: "scene \<Rightarrow> scene" where
  "clampSoil s =
     s\<lparr>soilMoisture := Clamp (soilMoisture s) 0 100, nitrogen := Clamp (nitrogen s) 0 100\<rparr>"

text \<open>\<^verbatim>\<open>// Update crop health\<close>\<close>

definition healthOf :: "real \<Rightarrow> real \<Rightarrow> real \<Rightarrow> real" where
  "healthOf sm n p = Clamp ((sm * 0.4 + n * 0.4 + (100 - p) * 0.2) / 1.5) 0 100"

definition updateHealth :: "scene \<Rightarrow> scene" where
  "updateHealth s = s\<lparr>cropHealth := healthOf (soilMoisture s) (nitrogen s) (pests s)\<rparr>"

text \<open>\<^verbatim>\<open>// Update money based on crop health\<close>\<close>

definition revenue :: "real \<Rightarrow> real \<Rightarrow> real" where
  "revenue h price = (if h > 70 then 4 * price else if h > 40 then 2 * price else 0)"

definition creditRevenue :: "scene \<Rightarrow> scene" where
  "creditRevenue s = s\<lparr>money := money s + revenue (cropHealth s) (marketPrice s)\<rparr>"

definition driftPrice :: "draws \<Rightarrow> scene \<Rightarrow> scene" where
  "driftPrice r s = s\<lparr>marketPrice := Clamp (marketPrice s + priceDrift r) 0.8 1.5\<rparr>"

definition handleAction :: "scene \<Rightarrow> action \<Rightarrow> draws \<Rightarrow> scene" where
  "handleAction s a r =
     (if complete s then s
      else
        let rn = rainAt s RainMedium;
            s1 = applyRain rn s;
            s2 = applyChoice rn a r s1;
            s3 = s2\<lparr>actionsTakenToday := actionsTakenToday s2 @ [a]\<rparr>;
            s4 = growPests r s3;
            s5 = clampSoil s4;
            s6 = updateHealth s5;
            s7 = creditRevenue s6
        in driftPrice r s7)"

subsection \<open>The day advance and the state of the page\<close>

text \<open>
  The React state that \<^verbatim>\<open>nextDay\<close> sets: the action log, the end summary and the flag
  of the end dialog. A log entry keeps the actions of the day (\<^verbatim>\<open>["No action"]\<close> for
  none) and the rain label; the summary keeps the three numbers it prints, as
  \<^verbatim>\<open>toFixed(1)\<close>, \<^verbatim>\<open>toFixed(0)\<close> and \<^verbatim>\<open>toFixed(0)\<close> round them.
\<close>

datatype logged = NoAction | Took "action list"

record summary =
  finalProfit :: real
  finalSustainability :: real
  finalCropHealth :: real

record page =
  actionLog :: "(logged \<times> rain) list"
  endSummary :: "summary option"
  showEndModal :: bool

definition initPage :: page where
  "initPage = \<lparr>actionLog = [], endSummary = None, showEndModal = False\<rparr>"

definition summaryOf :: "scene \<Rightarrow> summary" where
  "summaryOf s =
     \<lparr>finalProfit = toFixed 1 (money s),
      finalSustainability = toFixed 0 (sustainability s),
      finalCropHealth = toFixed 0 (cropHealth s)\<rparr>"

definition nextDay :: "scene \<times> page \<Rightarrow> scene \<times> page" where
  "nextDay sp =
     (let s = fst sp; u = snd sp
      in if complete s then (s, u)
         else
           let todayActions =
                 (if actionsTakenToday s = [] then NoAction else Took (actionsTakenToday s));
               rainToday = rainAt s RainNone;
               u1 = u\<lparr>actionLog := actionLog u @ [(todayActions, rainToday)]\<rparr>;
               s1 = s\<lparr>actionsTakenToday := []\<rparr>;
               s2 = s1\<lparr>day := day s1 + 1\<rparr>
           in if complete s2
              then (s2, u1\<lparr>endSummary := Some (summaryOf s2), showEndModal := True\<rparr>)
              else (s2, u1))"

subsection \<open>Reading the switch of handleAction\<close>

text \<open>
  What the four cases of the switch add to the soil moisture and take from the money:
  only \<^verbatim>\<open>Irrigate\<close> waters (\<^verbatim>\<open>+= 10\<close>); the costs are 3, 2, 1 and none.
\<close>

definition actionMoisture :: "action \<Rightarrow> real" where
  "actionMoisture a = (case a of Irrigate \<Rightarrow> 10 | Fertilize \<Rightarrow> 0 | Scout \<Rightarrow> 0 | Wait \<Rightarrow> 0)"

definition actionCost :: "action \<Rightarrow> real" where
  "actionCost a = (case a of Irrigate \<Rightarrow> 3 | Fertilize \<Rightarrow> 2 | Scout \<Rightarrow> 1 | Wait \<Rightarrow> 0)"

subsection \<open>The states a game can reach\<close>

text \<open>
  A game starts from \<open>init\<close> and the empty page; each click is an action, with draws
  in their ranges, or the day advance.
\<close>

inductive reachable :: "weatherData \<Rightarrow> scene \<times> page \<Rightarrow> bool" for data :: weatherData where
  start: "reachable data (init data, initPage)"
| act: "reachable data (s, u) \<Longrightarrow> drawsOk r \<Longrightarrow> reachable data (handleAction s a r, u)"
| advance: "reachable data sp \<Longrightarrow> reachable data (nextDay sp)"

text \<open>The ranges that hold in every reachable state (see \<open>reachable_bounded\<close> below).\<close>

definition bounded :: "weatherData \<Rightarrow> scene \<Rightarrow> bool" where
  "bounded data s =
     (0 \<le> nitrogen s \<and> nitrogen s \<le> 100 \<and> 0 \<le> pests s \<and> pests s \<le> 100
      \<and> 0 \<le> cropHealth s \<and> cropHealth s \<le> 100
      \<and> 0.8 \<le> marketPrice s \<and> marketPrice s \<le> 1.5
      \<and> sustainability s \<le> 80
      \<and> (soilMoisture s = soilMoisture (init data) \<or> 0 \<le> soilMoisture s \<and> soilMoisture s \<le> 100))"

text \<open>A sequence of clicks on the buttons of the scene, run from left to right.\<close>

datatype click = Act action draws | Advance

fun press :: "click \<Rightarrow> scene \<times> page \<Rightarrow> scene \<times> page" where
  "press (Act a r) sp = (handleAction (fst sp) a r, snd sp)"
| "press Advance sp = nextDay sp"

fun run :: "click list \<Rightarrow> scene \<times> page \<Rightarrow> scene \<times> page" where
  "run [] sp = sp"
| "run (c # cs) sp = run cs (press c sp)"

fun clickOk :: "click \<Rightarrow> bool" where
  "clickOk (Act a r) = drawsOk r"
| "clickOk Advance = True"

section \<open>The stages of one action, field by field\<close>

lemmas stage_defs = applyRain_def applyChoice_def growPests_def clampSoil_def
  updateHealth_def creditRevenue_def driftPrice_def

lemma Clamp_range: "lo \<le> hi \<Longrightarrow> lo \<le> Clamp v lo hi \<and> Clamp v lo hi \<le> hi"
  by (simp add: Clamp_def)

lemma handleAction_complete: "complete s \<Longrightarrow> handleAction s a r = s"
  by (simp add: handleAction_def)

lemma handleAction_health:
  "\<not> complete s \<Longrightarrow>
     cropHealth (handleAction s a r) =
       healthOf (soilMoisture (handleAction s a r)) (nitrogen (handleAction s a r))
         (pests (handleAction s a r))"
  by (cases a) (simp_all add: handleAction_def Let_def stage_defs)

lemma handleAction_soil:
  "\<not> complete s \<Longrightarrow>
     soilMoisture (handleAction s a r) =
       Clamp (soilMoisture s + rainDelta (rainAt s RainMedium) + actionMoisture a) 0 100"
  by (cases a) (simp_all add: handleAction_def Let_def stage_defs actionMoisture_def)

lemma handleAction_money:
  "\<not> complete s \<Longrightarrow>
     money (handleAction s a r) =
       money s - actionCost a + revenue (cropHealth (handleAction s a r)) (marketPrice s)"
  by (cases a) (simp_all add: handleAction_def Let_def stage_defs actionCost_def)

lemma handleAction_nitrogen:
  "\<not> complete s \<Longrightarrow>
     nitrogen (handleAction s a r) = Clamp (nitrogen s + (if a = Fertilize then 12 else 0)) 0 100"
  by (cases a) (simp_all add: handleAction_def Let_def stage_defs)

lemma handleAction_pests:
  "\<not> complete s \<Longrightarrow>
     pests (handleAction s a r) =
       Clamp ((if a = Scout then Clamp (pests s - of_int (pestReduction r)) 0 100 else pests s)
              + (of_int (pestRoll r) + (100 - cropHealth s) / 20)) 0 100"
  by (cases a) (simp_all add: handleAction_def Let_def stage_defs)

lemma handleAction_price:
  "\<not> complete s \<Longrightarrow>
     marketPrice (handleAction s a r) = Clamp (marketPrice s + priceDrift r) 0.8 1.5"
  by (cases a) (simp_all add: handleAction_def Let_def stage_defs)

lemma handleAction_sustainability:
  "\<not> complete s \<Longrightarrow>
     sustainability (handleAction s a r) =
       sustainability s
       - (if a = Irrigate \<and> rainAt s RainMedium \<noteq> RainLow \<and> rainAt s RainMedium \<noteq> RainNone then 2
          else if a = Fertilize \<and> rainAt s RainMedium = RainHigh then 3 else 0)"
  by (cases a) (simp_all add: handleAction_def Let_def stage_defs)

lemma handleAction_day:
  "day (handleAction s a r) = day s \<and> scene_rainPattern (handleAction s a r) = scene_rainPattern s"
  by (cases a) (simp_all add: handleAction_def Let_def stage_defs)

lemma rainAt_handleAction: "rainAt (handleAction s a r) dflt = rainAt s dflt"
  by (simp add: rainAt_def handleAction_day)

lemma complete_handleAction: "complete (handleAction s a r) = complete s"
  by (simp add: complete_def handleAction_day)

lemma handleAction_actions:
  "\<not> complete s \<Longrightarrow> actionsTakenToday (handleAction s a r) = actionsTakenToday s @ [a]"
  by (cases a) (simp_all add: handleAction_def Let_def stage_defs)

lemma nextDay_scene:
  "\<not> complete s \<Longrightarrow> fst (nextDay (s, u)) = s\<lparr>actionsTakenToday := [], day := day s + 1\<rparr>"
  by (simp add: nextDay_def Let_def)

lemma nextDay_complete: "complete s \<Longrightarrow> nextDay (s, u) = (s, u)"
  by (simp add: nextDay_def)

section \<open>The classifiers\<close>

text \<open>
  C5. The classifier of the simulation screen returns none exactly when the precipitation
  is 0, low when it lies strictly between 0 and 3, medium from 3 up to but excluding 10,
  and high from 10 on. The classifier of the second variant has three levels and never
  answers none: low below 2, medium from 2 up to but excluding 10, high from 10 on.
\<close>

theorem rain_classifiers_thresholds:
  "(rainLabel p = RainNone \<longleftrightarrow> p = 0)
   \<and> (0 < p \<and> p < 3 \<longrightarrow> rainLabel p = RainLow)
   \<and> (3 \<le> p \<and> p < 10 \<longrightarrow> rainLabel p = RainMedium)
   \<and> (10 \<le> p \<longrightarrow> rainLabel p = RainHigh)
   \<and> rainfallToLevel p \<noteq> RainNone
   \<and> (p < 2 \<longrightarrow> rainfallToLevel p = RainLow)
   \<and> (2 \<le> p \<and> p < 10 \<longrightarrow> rainfallToLevel p = RainMedium)
   \<and> (10 \<le> p \<longrightarrow> rainfallToLevel p = RainHigh)"
  by (simp add: rainLabel_def rainfallToLevel_def)

theorem rain_classifiers_thresholds_witness:
  "rainLabel 0 = RainNone \<and> rainLabel 2.5 = RainLow \<and> rainLabel 3 = RainMedium
   \<and> rainLabel 10 = RainHigh \<and> rainfallToLevel 0 = RainLow
   \<and> rainfallToLevel 2.5 = RainMedium \<and> rainfallToLevel 10 = RainHigh"
  using rain_classifiers_thresholds [of 0] rain_classifiers_thresholds [of "2.5"]
    rain_classifiers_thresholds [of 3] rain_classifiers_thresholds [of 10]
  by simp

text \<open>
  C6, as amended. For precipitation values \<open>0 \<le> p \<le> q\<close> the label of the simulation
  screen for \<open>p\<close> is at most the label for \<open>q\<close> in the order
  none < low < medium < high; the three-level classifier is monotone for all \<open>p \<le> q\<close>.
  Both are functions of the number alone: equal inputs get equal labels.
\<close>

theorem rain_label_monotone:
  "(0 \<le> p \<and> p \<le> q \<longrightarrow> intensity (rainLabel p) \<le> intensity (rainLabel q))
   \<and> (p \<le> q \<longrightarrow> intensity (rainfallToLevel p) \<le> intensity (rainfallToLevel q))
   \<and> (p = q \<longrightarrow> rainLabel p = rainLabel q \<and> rainfallToLevel p = rainfallToLevel q)"
  by (auto simp: rainLabel_def rainfallToLevel_def)

theorem rain_label_monotone_witness:
  "intensity (rainLabel 1) \<le> intensity (rainLabel 4)
   \<and> intensity (rainfallToLevel (- 999)) \<le> intensity (rainfallToLevel 12)
   \<and> rainLabel 4 = rainLabel 4"
  using rain_label_monotone [of 1 4] rain_label_monotone [of "- 999" 12] rain_label_monotone [of 4 4]
  by simp

text \<open>
  The claim as stated, for all numbers, fails below zero: the missing-value sentinel
  \<open>-999\<close> of the upstream source is below 0 and is labelled low, above the none of 0.
\<close>

theorem rain_label_negative_counterexample:
  "(- 999 :: real) \<le> 0 \<and> \<not> intensity (rainLabel (- 999)) \<le> intensity (rainLabel 0)"
  by (simp add: rainLabel_def)

section \<open>The soil-moisture balance\<close>





















section \<open>Missing values of the upstream response\<close>

text \<open>
  C8, as amended. A day whose key is absent from the maximum or the minimum temperature
  has no temperature and contributes an evapotranspiration of 0; a day whose key is
  absent from the precipitation has precipitation 0. A value that is present is taken
  as it is, for all three parameters, and two present temperatures go through the
  Hargreaves formula: no value is recognised as a sentinel.
\<close>

theorem parse_missing_values:
  "(tmaxObj k = None \<or> tminObj k = None \<longrightarrow> etoDay lat (parseDay tmaxObj tminObj precObj k) = Some 0)
   \<and> (precObj k = None \<longrightarrow> r_precip (parseDay tmaxObj tminObj precObj k) = 0)
   \<and> (\<forall>x. tmaxObj k = Some x \<longrightarrow> r_tmax (parseDay tmaxObj tminObj precObj k) = Some x)
   \<and> (\<forall>x. tminObj k = Some x \<longrightarrow> r_tmin (parseDay tmaxObj tminObj precObj k) = Some x)
   \<and> (\<forall>x. precObj k = Some x \<longrightarrow> r_precip (parseDay tmaxObj tminObj precObj k) = x)
   \<and> (\<forall>x y. tmaxObj k = Some x \<and> tminObj k = Some y \<longrightarrow>
         etoDay lat (parseDay tmaxObj tminObj precObj k)
           = hargreavesETo y x (computeRa lat (dayOfYear k)))"
  by (auto simp: parseDay_def etoDay_def split: option.splits)

theorem parse_missing_values_witness:
  "etoDay 0 (parseDay Map.empty [''20251003'' \<mapsto> 21] Map.empty ''20251003'') = Some 0
   \<and> r_precip (parseDay Map.empty [''20251003'' \<mapsto> 21] Map.empty ''20251003'') = 0
   \<and> r_tmin (parseDay Map.empty [''20251003'' \<mapsto> 21] Map.empty ''20251003'') = Some 21
   \<and> r_precip (parseDay [''20251003'' \<mapsto> 30] [''20251003'' \<mapsto> 30] [''20251003'' \<mapsto> 4]
        ''20251003'') = 4
   \<and> etoDay 0 (parseDay [''20251003'' \<mapsto> 30] [''20251003'' \<mapsto> 30] [''20251003'' \<mapsto> 4]
        ''20251003'') = hargreavesETo 30 30 (computeRa 0 (dayOfYear ''20251003''))"
  using parse_missing_values [of Map.empty "''20251003''" "[''20251003'' \<mapsto> 21]" 0 Map.empty]
    parse_missing_values [of "[''20251003'' \<mapsto> 30]" "''20251003''" "[''20251003'' \<mapsto> 30]"
      0 "[''20251003'' \<mapsto> 4]"]
  by simp

text \<open>
  The claim as stated fails on the sentinel: a maximum temperature of \<open>-999\<close> is parsed
  as the temperature \<open>-999\<close>, unlike an absent key, and a precipitation of \<open>-999\<close> is
  kept and drains the water balance of that day to 0, where an absent key leaves 75.
\<close>

theorem sentinel_counterexample:
  "r_tmax (parseDay [''20251003'' \<mapsto> - 999] Map.empty Map.empty ''20251003'') = Some (- 999)
   \<and> r_tmax (parseDay Map.empty Map.empty Map.empty ''20251003'') = None
   \<and> r_precip (parseDay Map.empty Map.empty [''20251003'' \<mapsto> - 999] ''20251003'') = - 999
   \<and> fst (soilSeries 0 ''maize''
        (parseSeries Map.empty Map.empty [''20251003'' \<mapsto> - 999] [''20251003''])) = [Some 0]
   \<and> fst (soilSeries 0 ''maize''
        (parseSeries Map.empty Map.empty Map.empty [''20251003''])) = [Some 75]
   \<and> parseDay [''20251003'' \<mapsto> - 999] [''20251003'' \<mapsto> - 999] [''20251003'' \<mapsto> - 999] ''20251003''
       \<noteq> parseDay Map.empty Map.empty Map.empty ''20251003''"
  by (simp add: parseSeries_def parseDay_def soilSeries_def kc_of_def kc_map_def fc_mm_def
      etoDay_def awStep_def Let_def toFixed_def)

section \<open>Crop health\<close>

text \<open>
  C1, as amended. After every action in a state that is not complete, the crop health is
  the clamped weighted formula of the updated soil moisture, nitrogen and pests; on a
  complete state and on the day advance it is unchanged. The scene starts with the
  constant 70, which \<open>init\<close> assigns directly.
\<close>

theorem cropHealth_recomputed:
  "(\<not> complete s \<longrightarrow>
      cropHealth (handleAction s a r) =
        Clamp ((soilMoisture (handleAction s a r) * 0.4 + nitrogen (handleAction s a r) * 0.4
                + (100 - pests (handleAction s a r)) * 0.2) / 1.5) 0 100)
   \<and> (complete s \<longrightarrow> cropHealth (handleAction s a r) = cropHealth s)
   \<and> cropHealth (fst (nextDay (s, u))) = cropHealth s
   \<and> cropHealth (init data) = 70"
proof -
  have "cropHealth (fst (nextDay (s, u))) = cropHealth s"
    by (cases "complete s") (simp_all add: nextDay_scene nextDay_complete)
  moreover have "complete s \<longrightarrow> cropHealth (handleAction s a r) = cropHealth s"
    by (simp add: handleAction_def)
  moreover have "cropHealth (init data) = 70"
    by (simp add: init_def)
  ultimately show ?thesis
    using handleAction_health [of s a r] by (simp add: healthOf_def)
qed

theorem cropHealth_recomputed_witness:
  "\<not> complete (init \<lparr>precip = [5], soil_moisture = []\<rparr>)
   \<and> cropHealth (handleAction (init \<lparr>precip = [5], soil_moisture = []\<rparr>) Irrigate
        \<lparr>pestReduction = 5, pestRoll = 0, priceDrift = 0\<rparr>)
     = Clamp ((71 * 0.4 + 45 * 0.4 + (100 - 16.5) * 0.2) / 1.5) 0 100
   \<and> complete (fst (nextDay (init \<lparr>precip = [5], soil_moisture = []\<rparr>, initPage)))
   \<and> cropHealth (handleAction (fst (nextDay (init \<lparr>precip = [5], soil_moisture = []\<rparr>, initPage)))
        Irrigate \<lparr>pestReduction = 5, pestRoll = 0, priceDrift = 0\<rparr>) = 70"
  using cropHealth_recomputed [of "init \<lparr>precip = [5], soil_moisture = []\<rparr>" Irrigate
      "\<lparr>pestReduction = 5, pestRoll = 0, priceDrift = 0\<rparr>" initPage
      "\<lparr>precip = [5], soil_moisture = []\<rparr>"]
    cropHealth_recomputed [of "fst (nextDay (init \<lparr>precip = [5], soil_moisture = []\<rparr>, initPage))"
      Irrigate "\<lparr>pestReduction = 5, pestRoll = 0, priceDrift = 0\<rparr>" initPage
      "\<lparr>precip = [5], soil_moisture = []\<rparr>"]
  by (simp add: init_def complete_def rainPattern_def rainLabel_def rainAt_def handleAction_def
      nextDay_def Let_def stage_defs rainDelta_def Clamp_def healthOf_def)

text \<open>
  The claim as stated fails at the start of every game: the crop health is 70 there,
  while the formula on the initial soil moisture, nitrogen and pests gives 38.
\<close>

theorem cropHealth_initial_counterexample:
  "cropHealth (init \<lparr>precip = [5], soil_moisture = []\<rparr>) = 70
   \<and> Clamp ((soilMoisture (init \<lparr>precip = [5], soil_moisture = []\<rparr>) * 0.4
            + nitrogen (init \<lparr>precip = [5], soil_moisture = []\<rparr>) * 0.4
            + (100 - pests (init \<lparr>precip = [5], soil_moisture = []\<rparr>)) * 0.2) / 1.5) 0 100 = 38
   \<and> cropHealth (init \<lparr>precip = [5], soil_moisture = []\<rparr>)
       \<noteq> healthOf (soilMoisture (init \<lparr>precip = [5], soil_moisture = []\<rparr>))
           (nitrogen (init \<lparr>precip = [5], soil_moisture = []\<rparr>))
           (pests (init \<lparr>precip = [5], soil_moisture = []\<rparr>))"
  by (simp add: init_def healthOf_def Clamp_def)

section \<open>Rain, action and the single clamp\<close>






section \<open>Ranges of the fields\<close>

lemma handleAction_ranges:
  assumes "\<not> complete s"
  shows "0 \<le> soilMoisture (handleAction s a r) \<and> soilMoisture (handleAction s a r) \<le> 100
    \<and> 0 \<le> nitrogen (handleAction s a r) \<and> nitrogen (handleAction s a r) \<le> 100
    \<and> 0 \<le> pests (handleAction s a r) \<and> pests (handleAction s a r) \<le> 100
    \<and> 0 \<le> cropHealth (handleAction s a r) \<and> cropHealth (handleAction s a r) \<le> 100
    \<and> 0.8 \<le> marketPrice (handleAction s a r) \<and> marketPrice (handleAction s a r) \<le> 1.5
    \<and> sustainability (handleAction s a r) \<le> sustainability s"
proof -
  have "0 \<le> soilMoisture (handleAction s a r) \<and> soilMoisture (handleAction s a r) \<le> 100"
    using assms by (simp add: handleAction_soil Clamp_range)
  moreover have "0 \<le> nitrogen (handleAction s a r) \<and> nitrogen (handleAction s a r) \<le> 100"
    using assms by (simp add: handleAction_nitrogen Clamp_range)
  moreover have "0 \<le> pests (handleAction s a r) \<and> pests (handleAction s a r) \<le> 100"
    using assms by (simp add: handleAction_pests Clamp_range)
  moreover have "0 \<le> cropHealth (handleAction s a r) \<and> cropHealth (handleAction s a r) \<le> 100"
    using assms by (simp add: handleAction_health healthOf_def Clamp_range)
  moreover have "0.8 \<le> marketPrice (handleAction s a r) \<and> marketPrice (handleAction s a r) \<le> 1.5"
    unfolding handleAction_price [OF assms] by (rule Clamp_range) simp
  moreover have "sustainability (handleAction s a r) \<le> sustainability s"
    using assms by (simp add: handleAction_sustainability)
  ultimately show ?thesis by simp
qed

lemma reachable_bounded: "reachable data sp \<Longrightarrow> bounded data (fst sp)"
proof (induction rule: reachable.induct)
  case start
  show ?case by (simp add: bounded_def init_def)
next
  case (act s u r a)
  show ?case
  proof (cases "complete s")
    case True
    with act.IH show ?thesis by (simp add: handleAction_complete)
  next
    case False
    from handleAction_ranges [OF False, of a r] act.IH show ?thesis
      by (simp add: bounded_def)
  qed
next
  case (advance sp)
  obtain s u where sp: "sp = (s, u)" by (cases sp)
  show ?case
  proof (cases "complete s")
    case True
    with advance.IH sp show ?thesis by (simp add: nextDay_complete)
  next
    case False
    with advance.IH sp show ?thesis by (simp add: nextDay_scene bounded_def)
  qed
qed

lemma reachable_press: "reachable data sp \<Longrightarrow> clickOk c \<Longrightarrow> reachable data (press c sp)"
proof (cases c)
  case (Act a r)
  assume "reachable data sp" "clickOk c"
  then show ?thesis using Act reachable.act [of data "fst sp" "snd sp" r a] by simp
next
  case Advance
  assume "reachable data sp"
  then show ?thesis using Advance by (simp add: reachable.advance)
qed

lemma reachable_run:
  "reachable data sp \<Longrightarrow> list_all clickOk cs \<Longrightarrow> reachable data (run cs sp)"
  by (induction cs arbitrary: sp) (simp_all add: reachable_press)

lemma irrigate_in_rain:
  "\<not> complete (fst sp) \<Longrightarrow> rainAt (fst sp) RainMedium = RainMedium \<Longrightarrow>
     sustainability (fst (run (replicate k (Act Irrigate r)) sp)) = sustainability (fst sp) - 2 * of_nat k"
proof (induction k arbitrary: sp)
  case 0
  show ?case by simp
next
  case (Suc k)
  let ?sp = "press (Act Irrigate r) sp"
  have "\<not> complete (fst ?sp)" "rainAt (fst ?sp) RainMedium = RainMedium"
    using Suc.prems by (simp_all add: complete_handleAction rainAt_handleAction)
  from Suc.IH [OF this] Suc.prems show ?case
    by (simp add: handleAction_sustainability)
qed

text \<open>
  C3, as amended. In every reachable state nitrogen, pests and crop health lie in
  \<open>[0, 100]\<close>, the market price lies in \<open>[0.8, 1.5]\<close>, and the sustainability is at most
  its initial 80; the soil moisture is still the initial value or lies in \<open>[0, 100]\<close>.
  After an action on a state that is not complete the soil moisture lies in \<open>[0, 100]\<close>,
  and the day advance leaves it as it is.
\<close>

theorem clamped_fields_in_range:
  "reachable data (s, u) \<Longrightarrow>
     0 \<le> nitrogen s \<and> nitrogen s \<le> 100 \<and> 0 \<le> pests s \<and> pests s \<le> 100
     \<and> 0 \<le> cropHealth s \<and> cropHealth s \<le> 100
     \<and> 0.8 \<le> marketPrice s \<and> marketPrice s \<le> 1.5
     \<and> sustainability s \<le> 80
     \<and> (soilMoisture s = soilMoisture (init data) \<or> 0 \<le> soilMoisture s \<and> soilMoisture s \<le> 100)
     \<and> (\<not> complete s \<longrightarrow>
          0 \<le> soilMoisture (handleAction s a r) \<and> soilMoisture (handleAction s a r) \<le> 100)
     \<and> soilMoisture (fst (nextDay (s, u))) = soilMoisture s"
proof -
  assume "reachable data (s, u)"
  then have "bounded data s" using reachable_bounded by fastforce
  moreover have "soilMoisture (fst (nextDay (s, u))) = soilMoisture s"
    by (cases "complete s") (simp_all add: nextDay_scene nextDay_complete)
  ultimately show ?thesis
    using handleAction_ranges [of s a r] by (simp add: bounded_def)
qed

theorem clamped_fields_in_range_witness:
  "reachable \<lparr>precip = [5, 0], soil_moisture = [150]\<rparr>
     (init \<lparr>precip = [5, 0], soil_moisture = [150]\<rparr>, initPage)
   \<and> soilMoisture (init \<lparr>precip = [5, 0], soil_moisture = [150]\<rparr>) = 150
   \<and> \<not> complete (init \<lparr>precip = [5, 0], soil_moisture = [150]\<rparr>)
   \<and> soilMoisture (handleAction (init \<lparr>precip = [5, 0], soil_moisture = [150]\<rparr>) Wait
        \<lparr>pestReduction = 5, pestRoll = 0, priceDrift = 0\<rparr>) = 100
   \<and> soilMoisture (fst (nextDay (init \<lparr>precip = [5, 0], soil_moisture = [150]\<rparr>, initPage))) = 150
   \<and> sustainability (init \<lparr>precip = [5, 0], soil_moisture = [150]\<rparr>) \<le> 80"
  using clamped_fields_in_range [OF reachable.start,
      of "\<lparr>precip = [5, 0], soil_moisture = [150]\<rparr>" Wait
         "\<lparr>pestReduction = 5, pestRoll = 0, priceDrift = 0\<rparr>"]
    reachable.start [of "\<lparr>precip = [5, 0], soil_moisture = [150]\<rparr>"]
  by (simp add: init_def complete_def rainPattern_def rainLabel_def rainAt_def handleAction_def
      Let_def stage_defs rainDelta_def Clamp_def)

text \<open>
  The claim as stated fails for the sustainability, which is only ever decreased: on a
  day of medium rain, 41 irrigations take it from 80 to \<open>-2\<close>.
\<close>

theorem sustainability_counterexample:
  "reachable \<lparr>precip = [5], soil_moisture = []\<rparr>
     (run (replicate 41 (Act Irrigate \<lparr>pestReduction = 5, pestRoll = 0, priceDrift = 0\<rparr>))
        (init \<lparr>precip = [5], soil_moisture = []\<rparr>, initPage))
   \<and> sustainability (fst
       (run (replicate 41 (Act Irrigate \<lparr>pestReduction = 5, pestRoll = 0, priceDrift = 0\<rparr>))
          (init \<lparr>precip = [5], soil_moisture = []\<rparr>, initPage))) = - 2"
proof -
  let ?d = "\<lparr>precip = [5], soil_moisture = []\<rparr>"
  let ?r = "\<lparr>pestReduction = 5, pestRoll = 0, priceDrift = 0\<rparr>"
  have ok: "list_all clickOk (replicate 41 (Act Irrigate ?r))"
    by (simp add: list_all_iff drawsOk_def)
  have nc: "\<not> complete (fst (init ?d, initPage))"
    by (simp add: complete_def init_def rainPattern_def)
  have rn: "rainAt (fst (init ?d, initPage)) RainMedium = RainMedium"
    by (simp add: rainAt_def init_def rainPattern_def rainLabel_def)
  have "sustainability (fst (run (replicate 41 (Act Irrigate ?r)) (init ?d, initPage))) = - 2"
    unfolding irrigate_in_rain [OF nc rn] by (simp add: init_def)
  then show ?thesis
    using reachable_run [OF reachable.start ok] by simp
qed

section \<open>The end of the season\<close>

lemma nextDay_summary:
  "\<not> complete s \<Longrightarrow> day s = int (length (scene_rainPattern s)) \<Longrightarrow>
     endSummary (snd (nextDay (s, u))) = Some (summaryOf s) \<and> showEndModal (snd (nextDay (s, u)))"
  by (simp add: nextDay_def Let_def complete_def summaryOf_def)

lemma nextDay_iterate:
  "day s + int k \<le> int (length (scene_rainPattern s)) + 1 \<Longrightarrow>
     day (fst ((nextDay ^^ k) (s, u))) = day s + int k
     \<and> scene_rainPattern (fst ((nextDay ^^ k) (s, u))) = scene_rainPattern s
     \<and> summaryOf (fst ((nextDay ^^ k) (s, u))) = summaryOf s"
proof (induction k)
  case 0
  show ?case by simp
next
  case (Suc k)
  obtain t v where tv: "(nextDay ^^ k) (s, u) = (t, v)" by (cases "(nextDay ^^ k) (s, u)")
  have ih: "day t = day s + int k" "scene_rainPattern t = scene_rainPattern s"
    "summaryOf t = summaryOf s"
    using Suc tv by simp_all
  have nc: "\<not> complete t" using ih Suc.prems by (simp add: complete_def)
  show ?case using ih by (simp add: tv nextDay_scene [OF nc] summaryOf_def)
qed

text \<open>
  C7. From day 1 of a season of at least one day, as many day advances as the season has
  days reach the complete state, and no fewer do; the last of them sets the end summary
  to the final profit, sustainability and crop health (rounded as printed) and opens the
  end dialog. On a complete state every action returns the state as it is.
\<close>

theorem season_completes:
  assumes "day s = 1" and "scene_rainPattern s \<noteq> []"
  shows "complete (fst ((nextDay ^^ length (scene_rainPattern s)) (s, u)))
    \<and> (\<forall>k < length (scene_rainPattern s). \<not> complete (fst ((nextDay ^^ k) (s, u))))
    \<and> endSummary (snd ((nextDay ^^ length (scene_rainPattern s)) (s, u)))
        = Some \<lparr>finalProfit = toFixed 1 (money s),
                finalSustainability = toFixed 0 (sustainability s),
                finalCropHealth = toFixed 0 (cropHealth s)\<rparr>
    \<and> showEndModal (snd ((nextDay ^^ length (scene_rainPattern s)) (s, u)))
    \<and> handleAction (fst ((nextDay ^^ length (scene_rainPattern s)) (s, u))) a r
        = fst ((nextDay ^^ length (scene_rainPattern s)) (s, u))
    \<and> (complete t \<longrightarrow> handleAction t a r = t)"
proof -
  let ?n = "length (scene_rainPattern s)"
  have fin: "complete (fst ((nextDay ^^ ?n) (s, u)))"
    using nextDay_iterate [of s ?n u] assms(1) by (simp add: complete_def)
  have before: "\<not> complete (fst ((nextDay ^^ k) (s, u)))" if "k < ?n" for k
    using nextDay_iterate [of s k u] assms(1) that by (simp add: complete_def)
  obtain m where m: "?n = Suc m" using assms(2) by (cases "scene_rainPattern s") simp_all
  obtain t' v where tv: "(nextDay ^^ m) (s, u) = (t', v)" by (cases "(nextDay ^^ m) (s, u)")
  have last: "day t' = int ?n" "scene_rainPattern t' = scene_rainPattern s"
    "summaryOf t' = summaryOf s"
    using nextDay_iterate [of s m u] assms(1) m tv by simp_all
  have nc: "\<not> complete t'" using last by (simp add: complete_def)
  have "endSummary (snd (nextDay (t', v))) = Some (summaryOf t') \<and> showEndModal (snd (nextDay (t', v)))"
    using nc last by (intro nextDay_summary) simp_all
  then have summary: "endSummary (snd ((nextDay ^^ ?n) (s, u))) = Some (summaryOf s)
      \<and> showEndModal (snd ((nextDay ^^ ?n) (s, u)))"
    using m tv last by simp
  show ?thesis
    using fin before summary by (simp add: handleAction_complete summaryOf_def)
qed

theorem season_completes_witness:
  "day (init \<lparr>precip = [5, 0], soil_moisture = []\<rparr>) = 1
   \<and> scene_rainPattern (init \<lparr>precip = [5, 0], soil_moisture = []\<rparr>) = [RainMedium, RainNone]
   \<and> \<not> complete (fst ((nextDay ^^ 1) (init \<lparr>precip = [5, 0], soil_moisture = []\<rparr>, initPage)))
   \<and> complete (fst ((nextDay ^^ 2) (init \<lparr>precip = [5, 0], soil_moisture = []\<rparr>, initPage)))
   \<and> endSummary (snd ((nextDay ^^ 2) (init \<lparr>precip = [5, 0], soil_moisture = []\<rparr>, initPage)))
       = Some \<lparr>finalProfit = 20, finalSustainability = 80, finalCropHealth = 70\<rparr>
   \<and> showEndModal (snd ((nextDay ^^ 2) (init \<lparr>precip = [5, 0], soil_moisture = []\<rparr>, initPage)))"
proof -
  let ?s = "init \<lparr>precip = [5, 0], soil_moisture = []\<rparr>"
  have d: "day ?s = 1" by (simp add: init_def)
  have p: "scene_rainPattern ?s = [RainMedium, RainNone]"
    by (simp add: init_def rainPattern_def rainLabel_def)
  have ne: "scene_rainPattern ?s \<noteq> []" by (simp add: p)
  have len: "length (scene_rainPattern ?s) = 2" by (simp add: p)
  have vals: "money ?s = 20" "sustainability ?s = 80" "cropHealth ?s = 70"
    by (simp_all add: init_def)
  note w = season_completes [OF d ne, of initPage Wait
      "\<lparr>pestReduction = 5, pestRoll = 0, priceDrift = 0\<rparr>" ?s, unfolded len vals]
  from w have early: "\<not> complete (fst ((nextDay ^^ k) (?s, initPage)))" if "k < 2" for k
    using that by blast
  have "\<not> complete (fst ((nextDay ^^ 1) (?s, initPage)))" by (rule early) simp
  moreover from w have "complete (fst ((nextDay ^^ 2) (?s, initPage)))" by blast
  moreover from w have "endSummary (snd ((nextDay ^^ 2) (?s, initPage)))
      = Some \<lparr>finalProfit = toFixed 1 20, finalSustainability = toFixed 0 80,
              finalCropHealth = toFixed 0 70\<rparr>" by blast
  moreover from w have "showEndModal (snd ((nextDay ^^ 2) (?s, initPage)))" by blast
  ultimately show ?thesis using d p by (simp add: toFixed_def)
qed

section \<open>Several actions on one day\<close>

lemma handleAction_forgets_actions:
  "handleAction (s\<lparr>actionsTakenToday := xs\<rparr>) a r
     = (handleAction s a r)\<lparr>actionsTakenToday := (if complete s then xs else xs @ [a])\<rparr>"
  by (cases a) (simp_all add: handleAction_def complete_def rainAt_def Let_def stage_defs)

text \<open>
  C9. An action on a state that is not complete appends itself to the actions of the day,
  keeps the day and leaves the state not complete; what it computes does not depend on
  the actions taken before. A second action \<open>b\<close> on the same day is therefore a full
  step again: the rain delta of the same day, the pest growth, the crop health, the
  revenue and the price drift are applied to the state the first action left.
\<close>

theorem actions_not_limited_per_day:
  "\<not> complete s \<Longrightarrow>
     actionsTakenToday (handleAction s a r) = actionsTakenToday s @ [a]
     \<and> day (handleAction s a r) = day s
     \<and> \<not> complete (handleAction s a r)
     \<and> handleAction (s\<lparr>actionsTakenToday := xs\<rparr>) a r
         = (handleAction s a r)\<lparr>actionsTakenToday := xs @ [a]\<rparr>
     \<and> actionsTakenToday (handleAction (handleAction s a r) b q) = actionsTakenToday s @ [a, b]
     \<and> day (handleAction (handleAction s a r) b q) = day s
     \<and> soilMoisture (handleAction (handleAction s a r) b q)
         = Clamp (soilMoisture (handleAction s a r) + rainDelta (rainAt s RainMedium)
                  + actionMoisture b) 0 100
     \<and> pests (handleAction (handleAction s a r) b q)
         = Clamp ((if b = Scout
                   then Clamp (pests (handleAction s a r) - of_int (pestReduction q)) 0 100
                   else pests (handleAction s a r))
                  + (of_int (pestRoll q) + (100 - cropHealth (handleAction s a r)) / 20)) 0 100
     \<and> cropHealth (handleAction (handleAction s a r) b q)
         = healthOf (soilMoisture (handleAction (handleAction s a r) b q))
             (nitrogen (handleAction (handleAction s a r) b q))
             (pests (handleAction (handleAction s a r) b q))
     \<and> money (handleAction (handleAction s a r) b q)
         = money (handleAction s a r) - actionCost b
           + revenue (cropHealth (handleAction (handleAction s a r) b q))
               (marketPrice (handleAction s a r))
     \<and> marketPrice (handleAction (handleAction s a r) b q)
         = Clamp (marketPrice (handleAction s a r) + priceDrift q) 0.8 1.5"
proof -
  assume nc: "\<not> complete s"
  then have nc': "\<not> complete (handleAction s a r)" by (simp add: complete_handleAction)
  have "actionsTakenToday (handleAction (handleAction s a r) b q) = actionsTakenToday s @ [a, b]"
    using nc nc' by (simp add: handleAction_actions)
  moreover have "handleAction (s\<lparr>actionsTakenToday := xs\<rparr>) a r
         = (handleAction s a r)\<lparr>actionsTakenToday := xs @ [a]\<rparr>"
    using nc by (simp add: handleAction_forgets_actions)
  moreover have "soilMoisture (handleAction (handleAction s a r) b q)
         = Clamp (soilMoisture (handleAction s a r) + rainDelta (rainAt s RainMedium)
                  + actionMoisture b) 0 100"
    using nc' by (simp add: handleAction_soil rainAt_handleAction)
  ultimately show ?thesis
    using nc nc' handleAction_pests [OF nc', of b q] handleAction_health [OF nc', of b q]
      handleAction_money [OF nc', of b q] handleAction_price [OF nc', of b q]
    by (simp add: handleAction_actions handleAction_day)
qed

theorem actions_not_limited_per_day_witness:
  "\<not> complete (init \<lparr>precip = [5], soil_moisture = []\<rparr>)
   \<and> handleAction (init \<lparr>precip = [5], soil_moisture = []\<rparr>) Wait
        \<lparr>pestReduction = 5, pestRoll = 0, priceDrift = 0\<rparr>
     = \<lparr>scene_rainPattern = [RainMedium], day = 1, money = 20, sustainability = 80,
        pests = 16.5, nitrogen = 45, cropHealth = 39.4, marketPrice = 1, soilMoisture = 61,
        actionsTakenToday = [Wait]\<rparr>
   \<and> handleAction (handleAction (init \<lparr>precip = [5], soil_moisture = []\<rparr>) Wait
        \<lparr>pestReduction = 5, pestRoll = 0, priceDrift = 0\<rparr>) Wait
        \<lparr>pestReduction = 5, pestRoll = 0, priceDrift = 0\<rparr>
     = \<lparr>scene_rainPattern = [RainMedium], day = 1, money = 22, sustainability = 80,
        pests = 19.53, nitrogen = 45, cropHealth = 40.596, marketPrice = 1, soilMoisture = 67,
        actionsTakenToday = [Wait, Wait]\<rparr>"
proof -
  let ?r = "\<lparr>pestReduction = 5, pestRoll = 0, priceDrift = 0\<rparr>"
  let ?s0 = "\<lparr>scene_rainPattern = [RainMedium], day = 1, money = 20, sustainability = 80,
        pests = 15, nitrogen = 45, cropHealth = 70, marketPrice = 1, soilMoisture = 55,
        actionsTakenToday = []\<rparr>"
  let ?s1 = "\<lparr>scene_rainPattern = [RainMedium], day = 1, money = 20, sustainability = 80,
        pests = 16.5, nitrogen = 45, cropHealth = 39.4, marketPrice = 1, soilMoisture = 61,
        actionsTakenToday = [Wait]\<rparr>"
  let ?s2 = "\<lparr>scene_rainPattern = [RainMedium], day = 1, money = 22, sustainability = 80,
        pests = 19.53, nitrogen = 45, cropHealth = 40.596, marketPrice = 1, soilMoisture = 67,
        actionsTakenToday = [Wait, Wait]\<rparr>"
  have s0: "init \<lparr>precip = [5], soil_moisture = []\<rparr> = ?s0"
    by (simp add: init_def rainPattern_def rainLabel_def)
  have nc: "\<not> complete ?s0" by (simp add: complete_def)
  have s1: "handleAction ?s0 Wait ?r = ?s1"
    by (simp add: handleAction_def complete_def rainAt_def Let_def stage_defs rainDelta_def
        Clamp_def healthOf_def revenue_def)
  note w = actions_not_limited_per_day [OF nc, of Wait ?r "[]" Wait ?r, unfolded s1]
  have "actionsTakenToday (handleAction ?s1 Wait ?r) = [Wait, Wait]"
    and "day (handleAction ?s1 Wait ?r) = 1"
    and "soilMoisture (handleAction ?s1 Wait ?r) = 67"
    using w by (simp_all add: rainAt_def rainDelta_def actionMoisture_def Clamp_def)
  moreover have "handleAction ?s1 Wait ?r = ?s2"
    by (simp add: handleAction_def complete_def rainAt_def Let_def stage_defs rainDelta_def
        Clamp_def healthOf_def revenue_def)
  ultimately show ?thesis using nc s1 by (simp add: s0)
qed

section \<open>The frame of the day advance\<close>

text \<open>
  C10. On a state that is not complete, in particular on a non-final day, the day
  advance increments the day and empties the actions of the day, and changes no other
  field of the scene: soil moisture, nitrogen, pests, crop health, money, sustainability
  and market price stay, whatever the rain label of the day. On a non-final day the
  state stays in progress and the end summary and the end dialog are untouched.
\<close>

theorem nextDay_frame:
  "\<not> complete s \<Longrightarrow>
     fst (nextDay (s, u)) = s\<lparr>actionsTakenToday := [], day := day s + 1\<rparr>
     \<and> soilMoisture (fst (nextDay (s, u))) = soilMoisture s
     \<and> nitrogen (fst (nextDay (s, u))) = nitrogen s
     \<and> pests (fst (nextDay (s, u))) = pests s
     \<and> cropHealth (fst (nextDay (s, u))) = cropHealth s
     \<and> money (fst (nextDay (s, u))) = money s
     \<and> sustainability (fst (nextDay (s, u))) = sustainability s
     \<and> marketPrice (fst (nextDay (s, u))) = marketPrice s
     \<and> (day s < int (length (scene_rainPattern s)) \<longrightarrow>
          \<not> complete (fst (nextDay (s, u)))
          \<and> endSummary (snd (nextDay (s, u))) = endSummary u
          \<and> showEndModal (snd (nextDay (s, u))) = showEndModal u)"
  by (simp add: nextDay_def Let_def complete_def)

theorem nextDay_frame_witness:
  "\<not> complete (init \<lparr>precip = [0, 5], soil_moisture = [60]\<rparr>)
   \<and> fst (nextDay (init \<lparr>precip = [0, 5], soil_moisture = [60]\<rparr>, initPage))
       = (init \<lparr>precip = [0, 5], soil_moisture = [60]\<rparr>)\<lparr>actionsTakenToday := [], day := 2\<rparr>
   \<and> rainAt (init \<lparr>precip = [0, 5], soil_moisture = [60]\<rparr>) RainNone = RainNone
   \<and> soilMoisture (fst (nextDay (init \<lparr>precip = [0, 5], soil_moisture = [60]\<rparr>, initPage))) = 60
   \<and> \<not> complete (fst (nextDay (init \<lparr>precip = [0, 5], soil_moisture = [60]\<rparr>, initPage)))"
  using nextDay_frame [of "init \<lparr>precip = [0, 5], soil_moisture = [60]\<rparr>" initPage]
  by (simp add: init_def complete_def rainPattern_def rainLabel_def rainAt_def)

end
